theory Spec2Isabelle
  imports Main "HOL-Library.Word" "HOL-Library.Sublist"
begin

section \<open>Contract checks of \<^verbatim>\<open>muli/error.hxx\<close>\<close>

text \<open>
  The header defines the exception class \<^verbatim>\<open>ContractViolation\<close>, two families of
  inline helpers that raise, and five call-site macros. The preprocessor conditional
  around the helpers and macros has two texts, the one after \<^verbatim>\<open>#if 1\<close> and the one
  after \<^verbatim>\<open>#else // NDEBUG\<close>; both are embedded below, and so is the conditional.
\<close>

subsection \<open>Texts and integers\<close>

text \<open>
  A \<^verbatim>\<open>char const *\<close> argument is represented by its text, the characters before the
  terminating NUL, so a value of type \<^typ>\<open>string\<close> in a \<^verbatim>\<open>char const *\<close> position
  never holds a NUL, and a null pointer is outside the model. A \<^verbatim>\<open>std::string\<close> is
  represented by all of its characters, and may hold a NUL; \<open>c_str\<close> is what a reader of
  the pointer returned by \<^verbatim>\<open>std::string::c_str()\<close> sees.
\<close>

definition c_text :: "string \<Rightarrow> bool" where
  "c_text s = (CHR 0x00 \<notin> set s)"

definition c_str :: "string \<Rightarrow> string" where
  "c_str s = takeWhile (\<lambda>c. c \<noteq> CHR 0x00) s"

text \<open>The C++ type \<^verbatim>\<open>int\<close> of the line number: 32 bits, two's complement, read with \<open>sint\<close>.\<close>

type_synonym c_int = "32 word"

subsection \<open>Formatted output to a string stream\<close>

text \<open>
  \<^verbatim>\<open>std::ostringstream\<close> is its buffer. Insertion of a text appends it; insertion of an
  \<^verbatim>\<open>int\<close> appends its decimal digits, with a leading minus sign for a negative value
  (the stream is freshly constructed, so the base is ten and no width, fill or sign flag
  is set; the classic locale groups no digits).
\<close>

definition digit :: "nat \<Rightarrow> char" where
  "digit d = ''0123456789'' ! d"

fun digits :: "nat \<Rightarrow> string" where
  "digits n = (if n < 10 then [digit n] else digits (n div 10) @ [digit (n mod 10)])"

declare digits.simps [simp del]

definition decimal :: "int \<Rightarrow> string" where
  "decimal i = (if i < 0 then CHR ''-'' # digits (nat (- i)) else digits (nat i))"

type_synonym ostringstream = string

definition put_text :: "ostringstream \<Rightarrow> string \<Rightarrow> ostringstream" where
  "put_text s t = s @ t"

definition put_int :: "ostringstream \<Rightarrow> c_int \<Rightarrow> ostringstream" where
  "put_int s i = s @ decimal (sint i)"

text \<open>Reading a decimal numeral back, to state that \<open>decimal\<close> loses nothing.\<close>

definition digit_value :: "char \<Rightarrow> nat" where
  "digit_value c = of_char c - 48"

definition digits_value :: "string \<Rightarrow> nat" where
  "digits_value s = foldl (\<lambda>a c. 10 * a + digit_value c) 0 s"

definition decimal_value :: "string \<Rightarrow> int" where
  "decimal_value s =
     (case s of
        [] \<Rightarrow> 0
      | c # ds \<Rightarrow> if c = CHR ''-'' then - int (digits_value ds) else int (digits_value s))"

subsection \<open>The exception class\<close>

text \<open>
  Two kinds of exception leave the header: \<^verbatim>\<open>muli::ContractViolation\<close> and its base
  \<^verbatim>\<open>std::runtime_error\<close>. Each carries the \<^verbatim>\<open>std::string\<close> handed to the base class, its
  payload. \<^verbatim>\<open>what()\<close> returns a \<^verbatim>\<open>char const *\<close> into the payload, so what a catcher reads
  is the payload up to its first NUL.
\<close>

datatype exception = ContractViolation string | runtime_error string

fun payload :: "exception \<Rightarrow> string" where
  "payload (ContractViolation w) = w"
| "payload (runtime_error w) = w"

definition what :: "exception \<Rightarrow> string" where
  "what e = c_str (payload e)"

fun is_ContractViolation :: "exception \<Rightarrow> bool" where
  "is_ContractViolation (ContractViolation w) = True"
| "is_ContractViolation (runtime_error w) = False"

text \<open>\<^verbatim>\<open>createMessage(prefix, message)\<close> and \<^verbatim>\<open>createMessage(prefix, message, file, line)\<close>.\<close>

definition createMessage :: "string \<Rightarrow> string \<Rightarrow> string" where
  "createMessage pfx message =
     (let s = [];
          s = put_text s ''\<newline>'';
          s = put_text s pfx;
          s = put_text s ''\<newline>'';
          s = put_text s message;
          s = put_text s ''\<newline>''
      in s)"

definition createMessage_at :: "string \<Rightarrow> string \<Rightarrow> string \<Rightarrow> c_int \<Rightarrow> string" where
  "createMessage_at pfx message file line =
     (let s = [];
          s = put_text s ''\<newline>'';
          s = put_text s pfx;
          s = put_text s ''\<newline>'';
          s = put_text s message;
          s = put_text s ''\<newline>('';
          s = put_text s file;
          s = put_text s '':'';
          s = put_int s line;
          s = put_text s '')\<newline>''
      in s)"

text \<open>The two constructors of \<^verbatim>\<open>ContractViolation\<close>.\<close>

definition new_ContractViolation :: "string \<Rightarrow> string \<Rightarrow> exception" where
  "new_ContractViolation pfx message = ContractViolation (createMessage pfx message)"

definition new_ContractViolation_at :: "string \<Rightarrow> string \<Rightarrow> string \<Rightarrow> c_int \<Rightarrow> exception" where
  "new_ContractViolation_at pfx message file line =
     ContractViolation (createMessage_at pfx message file line)"

subsection \<open>The helpers after \<^verbatim>\<open>#if 1\<close>\<close>

text \<open>
  A helper returns \<open>Inr ()\<close> when it returns, and \<open>Inl e\<close> when it throws \<open>e\<close>. The
  overloads taking \<^verbatim>\<open>std::string\<close> carry the suffix \<open>_string\<close>.
\<close>

definition throw_contract_error ::
  "bool \<Rightarrow> string \<Rightarrow> string \<Rightarrow> string \<Rightarrow> c_int \<Rightarrow> exception + unit" where
  "throw_contract_error predicate pfx message file line =
     (if \<not> predicate then Inl (new_ContractViolation_at pfx message file line)
      else Inr ())"

definition throw_contract_error_string ::
  "bool \<Rightarrow> string \<Rightarrow> string \<Rightarrow> string \<Rightarrow> c_int \<Rightarrow> exception + unit" where
  "throw_contract_error_string predicate pfx message file line =
     (if \<not> predicate then Inl (new_ContractViolation_at pfx (c_str message) file line)
      else Inr ())"

definition throw_runtime_error :: "string \<Rightarrow> string \<Rightarrow> c_int \<Rightarrow> exception + unit" where
  "throw_runtime_error message file line =
     (let w = [];
          w = put_text w ''\<newline>'';
          w = put_text w message;
          w = put_text w ''\<newline>('';
          w = put_text w file;
          w = put_text w '':'';
          w = put_int w line;
          w = put_text w '')\<newline>''
      in Inl (runtime_error w))"

definition throw_runtime_error_string :: "string \<Rightarrow> string \<Rightarrow> c_int \<Rightarrow> exception + unit" where
  "throw_runtime_error_string message file line =
     (let w = [];
          w = put_text w ''\<newline>'';
          w = put_text w message;
          w = put_text w ''\<newline>('';
          w = put_text w file;
          w = put_text w '':'';
          w = put_int w line;
          w = put_text w '')\<newline>''
      in Inl (runtime_error w))"

text \<open>
  The value of a \<^verbatim>\<open>MESSAGE\<close> expression is a \<^verbatim>\<open>char const *\<close> or a \<^verbatim>\<open>std::string\<close>;
  overload resolution picks the helper by that type.
\<close>

datatype message = c_string string | std_string string

fun content :: "message \<Rightarrow> string" where
  "content (c_string t) = t"
| "content (std_string t) = t"

fun throw_contract_error_call ::
  "bool \<Rightarrow> string \<Rightarrow> message \<Rightarrow> string \<Rightarrow> c_int \<Rightarrow> exception + unit" where
  "throw_contract_error_call p pfx (c_string m) file line =
     throw_contract_error p pfx m file line"
| "throw_contract_error_call p pfx (std_string m) file line =
     throw_contract_error_string p pfx m file line"

fun throw_runtime_error_call :: "message \<Rightarrow> string \<Rightarrow> c_int \<Rightarrow> exception + unit" where
  "throw_runtime_error_call (c_string m) file line = throw_runtime_error m file line"
| "throw_runtime_error_call (std_string m) file line = throw_runtime_error_string m file line"

subsection \<open>The macros\<close>

text \<open>
  \<^verbatim>\<open>PREDICATE\<close> and \<^verbatim>\<open>MESSAGE\<close> are expressions of the caller: each maps the caller's state
  to its value and the state after its side effects. A macro use is a statement: it maps
  the state to the outcome and the state after it. The checked macros expand to a
  function call, so both expressions are evaluated, in an order the language leaves to
  the compiler, before the helper's body runs. \<^verbatim>\<open>__FILE__\<close> and \<^verbatim>\<open>__LINE__\<close> of the
  expansion site are the arguments \<open>file\<close> and \<open>line\<close>.
\<close>

type_synonym ('s, 'a) expr = "'s \<Rightarrow> 'a \<times> 's"

datatype arg_order = predicate_first | message_first

fun eval_args ::
  "arg_order \<Rightarrow> ('s, bool) expr \<Rightarrow> ('s, message) expr \<Rightarrow> 's \<Rightarrow> (bool \<times> message) \<times> 's" where
  "eval_args predicate_first P M s =
     (let (p, s1) = P s; (m, s2) = M s1 in ((p, m), s2))"
| "eval_args message_first P M s =
     (let (m, s1) = M s; (p, s2) = P s1 in ((p, m), s2))"

definition muli_precondition ::
  "arg_order \<Rightarrow> ('s, bool) expr \<Rightarrow> ('s, message) expr \<Rightarrow> string \<Rightarrow> c_int \<Rightarrow> 's
     \<Rightarrow> (exception + unit) \<times> 's" where
  "muli_precondition ord P M file line s =
     (let ((p, m), s') = eval_args ord P M s
      in (throw_contract_error_call p ''Precondition violation!'' m file line, s'))"

definition muli_postcondition ::
  "arg_order \<Rightarrow> ('s, bool) expr \<Rightarrow> ('s, message) expr \<Rightarrow> string \<Rightarrow> c_int \<Rightarrow> 's
     \<Rightarrow> (exception + unit) \<times> 's" where
  "muli_postcondition ord P M file line s =
     (let ((p, m), s') = eval_args ord P M s
      in (throw_contract_error_call p ''Postcondition violation!'' m file line, s'))"

definition muli_invariant ::
  "arg_order \<Rightarrow> ('s, bool) expr \<Rightarrow> ('s, message) expr \<Rightarrow> string \<Rightarrow> c_int \<Rightarrow> 's
     \<Rightarrow> (exception + unit) \<times> 's" where
  "muli_invariant ord P M file line s =
     (let ((p, m), s') = eval_args ord P M s
      in (throw_contract_error_call p ''Invariant violation!'' m file line, s'))"

text \<open>
  \<^verbatim>\<open>muli_assert\<close> and \<^verbatim>\<open>muli_fail\<close> have a text in each branch of the conditional. After
  \<^verbatim>\<open>#else\<close>, \<^verbatim>\<open>muli_assert\<close> expands to nothing and \<^verbatim>\<open>muli_fail(MESSAGE)\<close> to
  \<^verbatim>\<open>throw std::runtime_error(MESSAGE)\<close>; neither mentions \<^verbatim>\<open>__FILE__\<close> or \<^verbatim>\<open>__LINE__\<close>, so
  the arguments \<open>file\<close> and \<open>line\<close> are unused there.
\<close>

datatype branch = checked | release

fun muli_assert ::
  "branch \<Rightarrow> arg_order \<Rightarrow> ('s, bool) expr \<Rightarrow> ('s, message) expr \<Rightarrow> string \<Rightarrow> c_int \<Rightarrow> 's
     \<Rightarrow> (exception + unit) \<times> 's" where
  "muli_assert checked ord P M file line s = muli_precondition ord P M file line s"
| "muli_assert release ord P M file line s = (Inr (), s)"

fun muli_fail ::
  "branch \<Rightarrow> ('s, message) expr \<Rightarrow> string \<Rightarrow> c_int \<Rightarrow> 's \<Rightarrow> (exception + unit) \<times> 's" where
  "muli_fail checked M file line s =
     (let (m, s') = M s in (throw_runtime_error_call m file line, s'))"
| "muli_fail release M file line s =
     (let (m, s') = M s in (Inl (runtime_error (content m)), s'))"

text \<open>
  The conditional itself. Line 151 of the header, \<^verbatim>\<open>//#ifndef NDEBUG\<close>, is a comment;
  line 153 reads \<^verbatim>\<open>#if 1\<close>. So whether or not \<^verbatim>\<open>NDEBUG\<close> is defined, the first text is
  the one compiled.
\<close>

definition selected_branch :: "bool \<Rightarrow> branch" where
  "selected_branch ndebug = checked"

text \<open>
  The three contract macros after \<^verbatim>\<open>#else\<close> call \<^verbatim>\<open>throw_contract_error\<close> with three
  arguments (predicate, prefix, message), where that branch declares it with the two
  parameters \<^verbatim>\<open>(bool predicate, char const * message)\<close>; and its body constructs
  \<^verbatim>\<open>ContractViolation(message)\<close> from one argument, where the class has constructors of
  two and of four parameters. Overload resolution is modelled on parameter types: a
  declaration is viable for a call when it has as many parameters as the call has
  arguments and each argument converts implicitly to its parameter.
\<close>

datatype cpp_type = t_bool | t_int | t_cstr | t_string | t_ContractViolation

definition converts :: "cpp_type \<Rightarrow> cpp_type \<Rightarrow> bool" where
  "converts a b =
     (a = b \<or> (a = t_cstr \<and> b = t_string) \<or> (a = t_cstr \<and> b = t_bool) \<or>
      (a = t_bool \<and> b = t_int) \<or> (a = t_int \<and> b = t_bool))"

definition viable :: "cpp_type list \<Rightarrow> cpp_type list \<Rightarrow> bool" where
  "viable params args = list_all2 converts args params"

definition throw_contract_error_release :: "cpp_type list list" where
  "throw_contract_error_release = [[t_bool, t_cstr]]"

definition ContractViolation_ctors :: "cpp_type list list" where
  "ContractViolation_ctors =
     [[t_cstr, t_cstr], [t_cstr, t_cstr, t_cstr, t_int], [t_ContractViolation]]"

definition contract_macro_release_args :: "cpp_type \<Rightarrow> cpp_type list" where
  "contract_macro_release_args message_type = [t_bool, t_cstr, message_type]"

definition resolve :: "cpp_type list list \<Rightarrow> cpp_type list \<Rightarrow> cpp_type list option" where
  "resolve overloads args = find (\<lambda>params. viable params args) overloads"

subsection \<open>Vocabulary of the properties\<close>

text \<open>
  The value of the predicate and of the message at a macro use, and the text of a
  message that the contract helpers hand to the constructor.
\<close>

definition predicate_value ::
  "arg_order \<Rightarrow> ('s, bool) expr \<Rightarrow> ('s, message) expr \<Rightarrow> 's \<Rightarrow> bool" where
  "predicate_value ord P M s = fst (fst (eval_args ord P M s))"

definition message_value ::
  "arg_order \<Rightarrow> ('s, bool) expr \<Rightarrow> ('s, message) expr \<Rightarrow> 's \<Rightarrow> message" where
  "message_value ord P M s = snd (fst (eval_args ord P M s))"

fun message_text :: "message \<Rightarrow> string" where
  "message_text (c_string t) = t"
| "message_text (std_string t) = c_str t"

text \<open>
  An outcome is a contract violation whose rendered string contains the prefix and the
  message; a rendered string is framed when it begins and ends with a newline, and a
  check raises a framed string unless its predicate holds, in which case it returns; a
  string is free of categories when none of the three prefixes occurs in it.
\<close>

definition violation_with :: "string \<Rightarrow> string \<Rightarrow> exception + unit \<Rightarrow> bool" where
  "violation_with pfx m r =
     (case r of
        Inl e \<Rightarrow> is_ContractViolation e \<and> sublist pfx (what e) \<and> sublist m (what e)
      | Inr u \<Rightarrow> False)"

definition newline_framed :: "string \<Rightarrow> bool" where
  "newline_framed s = (prefix ''\<newline>'' s \<and> suffix ''\<newline>'' s)"

definition raises_framed_unless :: "bool \<Rightarrow> exception + unit \<Rightarrow> bool" where
  "raises_framed_unless p r =
     (if p then r = Inr () else (\<exists>e. r = Inl e \<and> newline_framed (what e)))"

definition category_free :: "string \<Rightarrow> bool" where
  "category_free s =
     (\<not> sublist ''Precondition violation!'' s \<and>
      \<not> sublist ''Postcondition violation!'' s \<and>
      \<not> sublist ''Invariant violation!'' s)"

text \<open>Expressions of the examples: a constant, and a message that counts its evaluations.\<close>

definition pure :: "'a \<Rightarrow> ('s, 'a) expr" where
  "pure v s = (v, s)"

definition side_effect :: "(nat, message) expr" where
  "side_effect s = (c_string ''m'', Suc s)"

section \<open>Auxiliary facts\<close>

subsection \<open>Decimal numerals\<close>

lemma digit_value_digit: "d < 10 \<Longrightarrow> digit_value (digit d) = d"
  by (auto simp: digit_def digit_value_def less_Suc_eq numeral_eq_Suc nth_Cons')

lemma digit_in: "d < 10 \<Longrightarrow> digit d \<in> set ''0123456789''"
  by (auto simp: digit_def less_Suc_eq numeral_eq_Suc nth_Cons')

lemma digits_chars: "set (digits n) \<subseteq> set ''0123456789''"
proof (induction n rule: digits.induct)
  case (1 n)
  show ?case
  proof (cases "n < 10")
    case True
    then show ?thesis using digit_in [of n] by (simp add: digits.simps [of n])
  next
    case False
    have "n mod 10 < 10" by simp
    then have "digit (n mod 10) \<in> set ''0123456789''" by (rule digit_in)
    with False "1.IH" show ?thesis by (simp add: digits.simps [of n])
  qed
qed

lemma digits_nonempty: "digits n \<noteq> []"
  by (simp add: digits.simps [of n])

lemma digits_value_snoc: "digits_value (ds @ [c]) = 10 * digits_value ds + digit_value c"
  by (simp add: digits_value_def)

lemma digits_value_digits: "digits_value (digits n) = n"
proof (induction n rule: digits.induct)
  case (1 n)
  show ?case
  proof (cases "n < 10")
    case True
    then show ?thesis
      by (simp add: digits.simps [of n] digits_value_def digit_value_digit)
  next
    case False
    with "1.IH" have "digits_value (digits (n div 10)) = n div 10" by simp
    with False show ?thesis
      by (simp add: digits.simps [of n] digits_value_snoc digit_value_digit)
  qed
qed

lemma hd_digits_not_minus: "hd (digits n) \<noteq> CHR ''-''"
proof -
  have "hd (digits n) \<in> set (digits n)" using digits_nonempty by simp
  with digits_chars [of n] have "hd (digits n) \<in> set ''0123456789''" by blast
  then show ?thesis by auto
qed

lemma decimal_value_decimal: "decimal_value (decimal i) = i"
proof (cases "i < 0")
  case True
  then show ?thesis by (simp add: decimal_def decimal_value_def digits_value_digits)
next
  case False
  obtain c ds where cd: "digits (nat i) = c # ds"
    using digits_nonempty [of "nat i"] by (cases "digits (nat i)") auto
  with hd_digits_not_minus [of "nat i"] have "c \<noteq> CHR ''-''" by simp
  moreover have "digits_value (c # ds) = nat i" using digits_value_digits [of "nat i"] cd by simp
  ultimately show ?thesis using False cd by (simp add: decimal_def decimal_value_def)
qed

lemma decimal_chars: "set (decimal i) \<subseteq> set ''-0123456789''"
proof -
  have "set (digits n) \<subseteq> set (CHR ''-'' # ''0123456789'')" for n
    using digits_chars [of n] set_subset_Cons [of "''0123456789''" "CHR ''-''"]
    by (rule subset_trans)
  then show ?thesis
    unfolding decimal_def by (cases "i < 0") simp_all
qed

subsection \<open>What the helpers build\<close>

lemma c_str_c_text: "c_text s \<Longrightarrow> c_str s = s"
  by (auto simp: c_text_def c_str_def takeWhile_eq_all_conv)

lemma c_text_append: "c_text (a @ b) = (c_text a \<and> c_text b)"
  by (auto simp: c_text_def)

lemma c_text_Cons: "c_text (c # s) = (c \<noteq> CHR 0x00 \<and> c_text s)"
  by (auto simp: c_text_def)

lemma c_text_Nil: "c_text []"
  by (simp add: c_text_def)

lemma c_text_c_str: "c_text (c_str s)"
  by (auto simp: c_text_def c_str_def dest: set_takeWhileD)

lemma c_text_decimal: "c_text (decimal i)"
proof -
  have "CHR 0x00 \<notin> set ''-0123456789''" by simp
  with decimal_chars [of i] show ?thesis unfolding c_text_def by blast
qed

lemma c_str_append: "c_text a \<Longrightarrow> c_str (a @ b) = a @ c_str b"
  unfolding c_text_def c_str_def by (rule takeWhile_append2) auto

lemma what_c_text: "c_text (payload e) \<Longrightarrow> what e = payload e"
  by (simp add: what_def c_str_c_text)

lemma c_text_located:
  "c_text m \<Longrightarrow> c_text f \<Longrightarrow>
     c_text (''\<newline>'' @ m @ ''\<newline>('' @ f @ '':'' @ decimal i @ '')\<newline>'')"
  by (simp add: c_text_append c_text_Cons c_text_Nil c_text_decimal)

lemma createMessage_eq:
  "createMessage pfx message = ''\<newline>'' @ pfx @ ''\<newline>'' @ message @ ''\<newline>''"
  by (simp add: createMessage_def put_text_def)

lemma createMessage_at_eq:
  "createMessage_at pfx message file line =
     ''\<newline>'' @ pfx @ ''\<newline>'' @ message @ ''\<newline>('' @ file @ '':'' @ decimal (sint line) @ '')\<newline>''"
  by (simp add: createMessage_at_def put_text_def put_int_def)

lemma throw_runtime_error_eq:
  "throw_runtime_error message file line =
     Inl (runtime_error (''\<newline>'' @ message @ ''\<newline>('' @ file @ '':'' @ decimal (sint line) @ '')\<newline>''))"
  by (simp add: throw_runtime_error_def put_text_def put_int_def)

lemma throw_runtime_error_string_eq:
  "throw_runtime_error_string message file line =
     Inl (runtime_error (''\<newline>'' @ message @ ''\<newline>('' @ file @ '':'' @ decimal (sint line) @ '')\<newline>''))"
  by (simp add: throw_runtime_error_string_def put_text_def put_int_def)

lemma throw_contract_error_call_eq:
  "throw_contract_error_call p pfx m file line =
     (if p then Inr ()
      else Inl (ContractViolation (''\<newline>'' @ pfx @ ''\<newline>'' @ message_text m @ ''\<newline>('' @ file @ '':'' @
                  decimal (sint line) @ '')\<newline>'')))"
  by (cases m)
    (simp_all add: throw_contract_error_def throw_contract_error_string_def
       new_ContractViolation_at_def createMessage_at_eq)

lemma throw_runtime_error_call_eq:
  "throw_runtime_error_call m file line =
     Inl (runtime_error (''\<newline>'' @ content m @ ''\<newline>('' @ file @ '':'' @ decimal (sint line) @ '')\<newline>''))"
  by (cases m) (simp_all add: throw_runtime_error_eq throw_runtime_error_string_eq)

lemma decimal_42: "decimal 42 = ''42''"
  by (simp add: decimal_def digits.simps digit_def)

lemma decimal_0: "decimal 0 = ''0''"
  by (simp add: decimal_def digits.simps digit_def)

lemma decimal_minus_7: "decimal (- 7) = ''-7''"
  by (simp add: decimal_def digits.simps digit_def)

lemma eval_args_pure:
  "eval_args ord (pure p) (pure m) s = ((p, m), s)"
  by (cases ord) (simp_all add: pure_def)

subsection \<open>Occurrences of a text across a separator\<close>

lemma sublist_separator:
  assumes "c \<notin> set p"
  shows "sublist p (a @ c # b) = (sublist p a \<or> sublist p b)"
proof
  assume "sublist p (a @ c # b)"
  then consider "sublist p a" | "sublist p (c # b)"
    | xs1 xs2 where "p = xs1 @ xs2" "suffix xs1 a" "prefix xs2 (c # b)"
    unfolding sublist_append by blast
  then show "sublist p a \<or> sublist p b"
  proof cases
    case 1
    then show ?thesis by simp
  next
    case 2
    then have "prefix p (c # b) \<or> sublist p b" by (simp add: sublist_Cons_right)
    then show ?thesis
    proof
      assume "prefix p (c # b)"
      with assms have "p = []" by (cases p) auto
      then show ?thesis by simp
    next
      assume "sublist p b"
      then show ?thesis by simp
    qed
  next
    case 3
    from 3(1) assms have "c \<notin> set xs2" by simp
    with 3(3) have "xs2 = []" by (cases xs2) auto
    with 3(1,2) show ?thesis by auto
  qed
next
  assume "sublist p a \<or> sublist p b"
  then show "sublist p (a @ c # b)"
  proof
    assume "sublist p a"
    then show ?thesis by (simp add: sublist_append)
  next
    assume "sublist p b"
    then have "sublist p (c # b)" by (simp add: sublist_Cons_right)
    then show ?thesis by (simp add: sublist_append)
  qed
qed

lemma sublist_disjoint:
  assumes "p \<noteq> []" and "set p \<inter> set xs = {}"
  shows "\<not> sublist p xs"
proof
  assume "sublist p xs"
  then have "set p \<subseteq> set xs" by (auto simp: sublist_def)
  with assms show False by (cases p) auto
qed

lemma sublist_located:
  assumes ne: "p \<noteq> []"
    and sep: "set p \<inter> set ''\<newline>(:)-0123456789'' = {}"
  shows "sublist p (''\<newline>'' @ m @ ''\<newline>('' @ f @ '':'' @ decimal i @ '')\<newline>'') =
           (sublist p m \<or> sublist p f)"
proof -
  from sep have c: "CHR ''\<newline>'' \<notin> set p" "CHR ''('' \<notin> set p" "CHR '':'' \<notin> set p"
    "CHR '')'' \<notin> set p"
    by auto
  from sep have "set p \<inter> set ''-0123456789'' = {}" by auto
  with decimal_chars [of i] have "set p \<inter> set (decimal i) = {}" by blast
  with ne have d: "\<not> sublist p (decimal i)" by (rule sublist_disjoint)
  from ne have e: "\<not> sublist p []" by simp
  have "sublist p ([] @ CHR ''\<newline>'' # m @ CHR ''\<newline>'' # [] @ CHR ''('' # f @ CHR '':'' #
           decimal i @ CHR '')'' # [] @ CHR ''\<newline>'' # []) = (sublist p m \<or> sublist p f)"
    unfolding sublist_separator [OF c(1)] sublist_separator [OF c(2)]
      sublist_separator [OF c(3)] sublist_separator [OF c(4)]
    using d e by blast
  then show ?thesis by simp
qed

lemma category_free_located:
  "category_free (''\<newline>'' @ m @ ''\<newline>('' @ f @ '':'' @ decimal i @ '')\<newline>'') =
     (category_free m \<and> category_free f)"
proof -
  have "sublist ''Precondition violation!''
          (''\<newline>'' @ m @ ''\<newline>('' @ f @ '':'' @ decimal i @ '')\<newline>'') =
        (sublist ''Precondition violation!'' m \<or> sublist ''Precondition violation!'' f)"
    by (rule sublist_located) simp_all
  moreover have "sublist ''Postcondition violation!''
          (''\<newline>'' @ m @ ''\<newline>('' @ f @ '':'' @ decimal i @ '')\<newline>'') =
        (sublist ''Postcondition violation!'' m \<or> sublist ''Postcondition violation!'' f)"
    by (rule sublist_located) simp_all
  moreover have "sublist ''Invariant violation!''
          (''\<newline>'' @ m @ ''\<newline>('' @ f @ '':'' @ decimal i @ '')\<newline>'') =
        (sublist ''Invariant violation!'' m \<or> sublist ''Invariant violation!'' f)"
    by (rule sublist_located) simp_all
  ultimately show ?thesis unfolding category_free_def by blast
qed

subsection \<open>Outcome of a contract check\<close>

lemma macro_steps:
  "muli_precondition predicate_first P M file line s =
     (throw_contract_error_call (fst (P s)) ''Precondition violation!''
        (fst (M (snd (P s)))) file line, snd (M (snd (P s))))"
  "muli_precondition message_first P M file line s =
     (throw_contract_error_call (fst (P (snd (M s)))) ''Precondition violation!''
        (fst (M s)) file line, snd (P (snd (M s))))"
  "muli_postcondition predicate_first P M file line s =
     (throw_contract_error_call (fst (P s)) ''Postcondition violation!''
        (fst (M (snd (P s)))) file line, snd (M (snd (P s))))"
  "muli_postcondition message_first P M file line s =
     (throw_contract_error_call (fst (P (snd (M s)))) ''Postcondition violation!''
        (fst (M s)) file line, snd (P (snd (M s))))"
  "muli_invariant predicate_first P M file line s =
     (throw_contract_error_call (fst (P s)) ''Invariant violation!''
        (fst (M (snd (P s)))) file line, snd (M (snd (P s))))"
  "muli_invariant message_first P M file line s =
     (throw_contract_error_call (fst (P (snd (M s)))) ''Invariant violation!''
        (fst (M s)) file line, snd (P (snd (M s))))"
  by (simp_all add: muli_precondition_def muli_postcondition_def muli_invariant_def
      split: prod.splits)

lemma call_returns: "(throw_contract_error_call p pfx m file line = Inr ()) = p"
  by (simp add: throw_contract_error_call_eq)

lemma call_raises: "(\<exists>e. throw_contract_error_call p pfx m file line = Inl e) = (\<not> p)"
  by (simp add: throw_contract_error_call_eq)

lemma message_text_content: "c_text (content m) \<Longrightarrow> message_text m = content m"
  by (cases m) (simp_all add: c_str_c_text)

lemma c_text_message_text: "c_text (content m) \<Longrightarrow> c_text (message_text m)"
  by (simp add: message_text_content)

lemma sublist_second: "sublist b (a @ b @ c)"
  by (rule sublist_appendI)

lemma sublist_fourth: "sublist d (a @ b @ c @ d @ e)"
proof -
  have "sublist d ((a @ b @ c) @ d @ e)" by (rule sublist_appendI)
  then show ?thesis by simp
qed

lemma call_violation:
  assumes "\<not> p" and "c_text pfx" and "c_text (content m)"
  shows "violation_with pfx (content m) (throw_contract_error_call p pfx m file line)"
proof -
  let ?rest = "''\<newline>('' @ file @ '':'' @ decimal (sint line) @ '')\<newline>''"
  let ?front = "''\<newline>'' @ pfx @ ''\<newline>'' @ content m"
  let ?seen = "''\<newline>'' @ pfx @ ''\<newline>'' @ content m @ c_str ?rest"
  have c: "c_text ?front"
    using assms by (simp add: c_text_append c_text_Cons c_text_Nil)
  have r: "throw_contract_error_call p pfx m file line = Inl (ContractViolation (?front @ ?rest))"
    using assms by (simp add: throw_contract_error_call_eq message_text_content)
  have "what (ContractViolation (?front @ ?rest)) = ?front @ c_str ?rest"
    unfolding what_def payload.simps by (rule c_str_append [OF c])
  then have w: "what (ContractViolation (?front @ ?rest)) = ?seen" by simp
  have "sublist pfx ?seen" by (rule sublist_second)
  moreover have "sublist (content m) ?seen" by (rule sublist_fourth)
  ultimately show ?thesis
    unfolding r violation_with_def sum.case w by simp
qed

lemma contract_check:
  assumes "r = throw_contract_error_call p pfx m file line" and "c_text pfx"
  shows "(r = Inr ()) = p"
    and "(\<exists>e. r = Inl e) = (\<not> p)"
    and "\<not> p \<Longrightarrow> c_text (content m) \<Longrightarrow> violation_with pfx (content m) r"
  using assms by (simp_all add: call_returns call_raises call_violation)

lemma c_text_prefixes:
  "c_text ''Precondition violation!''"
  "c_text ''Postcondition violation!''"
  "c_text ''Invariant violation!''"
  by (simp_all add: c_text_def)

lemma muli_fail_checked_eq:
  "muli_fail checked M file line s =
     (Inl (runtime_error (''\<newline>'' @ content (fst (M s)) @ ''\<newline>('' @ file @ '':'' @
        decimal (sint line) @ '')\<newline>'')), snd (M s))"
  by (simp add: throw_runtime_error_call_eq split: prod.splits)

subsection \<open>Strings between newlines\<close>

lemma newline_framed_between: "newline_framed (''\<newline>'' @ x @ ''\<newline>'')"
  by (simp add: newline_framed_def suffix_def)

lemma framed_what:
  assumes "c_text x" and "payload e = ''\<newline>'' @ x @ ''\<newline>''"
  shows "newline_framed (what e)"
proof -
  from assms have "c_text (payload e)"
    by (simp add: c_text_append c_text_Cons c_text_Nil)
  then have "what e = ''\<newline>'' @ x @ ''\<newline>''"
    using assms(2) by (simp add: what_c_text)
  then show ?thesis by (simp only: newline_framed_between)
qed

lemma newline_framed_createMessage:
  assumes "c_text pfx" and "c_text message"
  shows "newline_framed (what (new_ContractViolation pfx message))"
proof (rule framed_what)
  show "c_text (pfx @ ''\<newline>'' @ message)"
    using assms by (simp add: c_text_append c_text_Cons c_text_Nil)
  show "payload (new_ContractViolation pfx message) =
          ''\<newline>'' @ (pfx @ ''\<newline>'' @ message) @ ''\<newline>''"
    by (simp add: new_ContractViolation_def createMessage_eq)
qed

lemma newline_framed_createMessage_at:
  assumes "c_text pfx" and "c_text message" and "c_text file"
  shows "newline_framed (what (new_ContractViolation_at pfx message file line))"
proof (rule framed_what)
  show "c_text (pfx @ ''\<newline>'' @ message @ ''\<newline>('' @ file @ '':'' @ decimal (sint line) @ '')'')"
    using assms by (simp add: c_text_append c_text_Cons c_text_Nil c_text_decimal)
  show "payload (new_ContractViolation_at pfx message file line) =
          ''\<newline>'' @ (pfx @ ''\<newline>'' @ message @ ''\<newline>('' @ file @ '':'' @
             decimal (sint line) @ '')'') @ ''\<newline>''"
    by (simp add: new_ContractViolation_at_def createMessage_at_eq)
qed

lemma raises_framed_call:
  assumes "c_text pfx" and "c_text (content m)" and "c_text file"
  shows "raises_framed_unless p (throw_contract_error_call p pfx m file line)"
proof (cases p)
  case True
  then show ?thesis by (simp add: throw_contract_error_call_eq raises_framed_unless_def)
next
  case False
  have "newline_framed (what (new_ContractViolation_at pfx (message_text m) file line))"
    using assms by (intro newline_framed_createMessage_at c_text_message_text)
  moreover have "throw_contract_error_call p pfx m file line =
      Inl (new_ContractViolation_at pfx (message_text m) file line)"
    using False by (cases m)
      (simp_all add: throw_contract_error_def throw_contract_error_string_def)
  ultimately show ?thesis using False by (simp add: raises_framed_unless_def)
qed

lemma raises_framed_runtime:
  assumes "c_text (content m)" and "c_text file"
  shows "raises_framed_unless False (throw_runtime_error_call m file line)"
proof -
  have "newline_framed (what (runtime_error (''\<newline>'' @ (content m @ ''\<newline>('' @ file @ '':'' @
             decimal (sint line) @ '')'') @ ''\<newline>'')))"
    using assms
    by (intro framed_what [where x = "content m @ ''\<newline>('' @ file @ '':'' @
             decimal (sint line) @ '')''"])
       (simp_all add: c_text_append c_text_Cons c_text_Nil c_text_decimal)
  then show ?thesis by (simp add: throw_runtime_error_call_eq raises_framed_unless_def)
qed

section \<open>The rendered string\<close>

text \<open>
  C2. For every prefix, message, file and line, the string a \<^verbatim>\<open>ContractViolation\<close>
  constructed with a location hands to its base class is exactly newline, prefix,
  newline, message, newline, opening parenthesis, file, colon, the decimal line, closing
  parenthesis, newline; and that is what \<^verbatim>\<open>what()\<close> shows, the three texts being C
  strings. In particular a failed \<^verbatim>\<open>muli_precondition\<close> with message \<^verbatim>\<open>x>0\<close> at line 42
  of \<^verbatim>\<open>t.x\<close> carries the string shown, whatever the order of evaluation and the state.
\<close>

theorem rendered_with_location:
  "payload (new_ContractViolation_at pfx message file line) =
     ''\<newline>'' @ pfx @ ''\<newline>'' @ message @ ''\<newline>('' @ file @ '':'' @ decimal (sint line) @ '')\<newline>''
   \<and> (c_text pfx \<and> c_text message \<and> c_text file \<longrightarrow>
        what (new_ContractViolation_at pfx message file line) =
          ''\<newline>'' @ pfx @ ''\<newline>'' @ message @ ''\<newline>('' @ file @ '':'' @ decimal (sint line) @ '')\<newline>'')
   \<and> fst (muli_precondition ord (pure False) (pure (c_string ''x>0'')) ''t.x'' 42 s) =
       Inl (ContractViolation ''\<newline>Precondition violation!\<newline>x>0\<newline>(t.x:42)\<newline>'')
   \<and> what (ContractViolation ''\<newline>Precondition violation!\<newline>x>0\<newline>(t.x:42)\<newline>'') =
       ''\<newline>Precondition violation!\<newline>x>0\<newline>(t.x:42)\<newline>''"
proof -
  have p: "payload (new_ContractViolation_at pfx message file line) =
     ''\<newline>'' @ pfx @ ''\<newline>'' @ message @ ''\<newline>('' @ file @ '':'' @ decimal (sint line) @ '')\<newline>''"
    by (simp add: new_ContractViolation_at_def createMessage_at_eq)
  have w: "what (new_ContractViolation_at pfx message file line) =
          ''\<newline>'' @ pfx @ ''\<newline>'' @ message @ ''\<newline>('' @ file @ '':'' @ decimal (sint line) @ '')\<newline>''"
    if "c_text pfx" "c_text message" "c_text file"
  proof -
    from that have "c_text (payload (new_ContractViolation_at pfx message file line))"
      unfolding p by (simp add: c_text_append c_text_Cons c_text_Nil c_text_decimal)
    then show ?thesis unfolding p [symmetric] by (rule what_c_text)
  qed
  have e: "fst (muli_precondition ord (pure False) (pure (c_string ''x>0'')) ''t.x'' 42 s) =
       Inl (ContractViolation ''\<newline>Precondition violation!\<newline>x>0\<newline>(t.x:42)\<newline>'')"
    by (simp add: muli_precondition_def eval_args_pure throw_contract_error_call_eq decimal_42)
  have c: "what (ContractViolation ''\<newline>Precondition violation!\<newline>x>0\<newline>(t.x:42)\<newline>'') =
       ''\<newline>Precondition violation!\<newline>x>0\<newline>(t.x:42)\<newline>''"
    by (simp add: what_def c_str_def)
  from p w e c show ?thesis by blast
qed

theorem rendered_with_location_witness:
  "c_text ''Precondition violation!'' \<and> c_text ''x>0'' \<and> c_text ''t.x''
   \<and> what (new_ContractViolation_at ''Precondition violation!'' ''x>0'' ''t.x'' 42) =
       ''\<newline>Precondition violation!\<newline>x>0\<newline>(t.x:42)\<newline>''"
proof -
  have c: "c_text ''Precondition violation!''" "c_text ''x>0''" "c_text ''t.x''"
    by (simp_all add: c_text_def)
  from rendered_with_location
    [of "''Precondition violation!''" "''x>0''" "''t.x''" 42 predicate_first "()"] c
  have "what (new_ContractViolation_at ''Precondition violation!'' ''x>0'' ''t.x'' 42) =
          ''\<newline>'' @ ''Precondition violation!'' @ ''\<newline>'' @ ''x>0'' @ ''\<newline>('' @ ''t.x'' @ '':'' @
          decimal (sint (42 :: c_int)) @ '')\<newline>''"
    by blast
  with c show ?thesis by (simp add: decimal_42)
qed

text \<open>
  C10. Constructing a \<^verbatim>\<open>ContractViolation\<close> with a location is total in the line: for
  every 32-bit value, zero and the negative ones included, the string holds the decimal
  numeral of that value between the colon and the closing parenthesis, and the numeral
  reads back as the value. Nothing checks that the line is positive: line 0 gives
  \<^verbatim>\<open>(f:0)\<close> and line -7 gives \<^verbatim>\<open>(f:-7)\<close>.
\<close>

theorem line_rendered_unvalidated:
  "new_ContractViolation_at pfx message file line =
     ContractViolation
       (''\<newline>'' @ pfx @ ''\<newline>'' @ message @ ''\<newline>('' @ file @ '':'' @ decimal (sint line) @ '')\<newline>'')
   \<and> decimal_value (decimal (sint line)) = sint line
   \<and> what (new_ContractViolation_at ''P'' ''m'' ''f'' 0) = ''\<newline>P\<newline>m\<newline>(f:0)\<newline>''
   \<and> what (new_ContractViolation_at ''P'' ''m'' ''f'' (- 7)) = ''\<newline>P\<newline>m\<newline>(f:-7)\<newline>''"
  by (simp add: new_ContractViolation_at_def createMessage_at_eq decimal_value_decimal
      decimal_0 decimal_minus_7 what_def c_str_def)

section \<open>The conditional\<close>

text \<open>
  C4. The claim is that in a release build \<^verbatim>\<open>muli_assert\<close> is elided: nothing raised,
  neither expression evaluated; the header's documentation says the same of a build
  with \<^verbatim>\<open>NDEBUG\<close> defined. The source does otherwise. With \<^verbatim>\<open>NDEBUG\<close> defined the
  conditional still selects the first text, so an assertion with a false predicate
  raises the precondition violation with its location, and an assertion with a true
  predicate has evaluated its message, in either order of evaluation.
\<close>

theorem assert_kept_with_NDEBUG:
  "selected_branch True = checked
   \<and> muli_assert (selected_branch True) ord (pure False) (pure (c_string ''oops'')) ''t.x'' 42 s =
       (Inl (ContractViolation ''\<newline>Precondition violation!\<newline>oops\<newline>(t.x:42)\<newline>''), s)
   \<and> muli_assert (selected_branch True) predicate_first (pure True) side_effect ''t.x'' 42 0 =
       (Inr (), Suc 0)
   \<and> muli_assert (selected_branch True) message_first (pure True) side_effect ''t.x'' 42 0 =
       (Inr (), Suc 0)"
  by (simp add: selected_branch_def muli_precondition_def eval_args_pure
      throw_contract_error_call_eq decimal_42 pure_def side_effect_def)

text \<open>
  C9. As compiled, with or without \<^verbatim>\<open>NDEBUG\<close>, \<^verbatim>\<open>muli_assert\<close> is \<^verbatim>\<open>muli_precondition\<close>:
  same outcome and same final state for every predicate and message; and when the
  predicate is false the outcome is a \<^verbatim>\<open>ContractViolation\<close> whose string starts with the
  precondition prefix and ends with the location.
\<close>

theorem assert_is_precondition_as_compiled:
  "muli_assert (selected_branch ndebug) ord P M file line s =
     muli_precondition ord P M file line s
   \<and> (\<not> predicate_value ord P M s \<longrightarrow>
        fst (muli_assert (selected_branch ndebug) ord P M file line s) =
          Inl (ContractViolation
                (''\<newline>Precondition violation!\<newline>'' @ message_text (message_value ord P M s) @
                 ''\<newline>('' @ file @ '':'' @ decimal (sint line) @ '')\<newline>'')))"
  by (simp add: selected_branch_def muli_precondition_def predicate_value_def
      message_value_def throw_contract_error_call_eq split: prod.splits)

theorem assert_is_precondition_as_compiled_witness:
  "\<not> predicate_value predicate_first (pure False) (pure (c_string ''oops'')) ()
   \<and> fst (muli_assert (selected_branch True) predicate_first (pure False)
            (pure (c_string ''oops'')) ''t.x'' 42 ()) =
       Inl (ContractViolation ''\<newline>Precondition violation!\<newline>oops\<newline>(t.x:42)\<newline>'')"
proof -
  have h: "\<not> predicate_value predicate_first (pure False) (pure (c_string ''oops'')) ()"
    by (simp add: predicate_value_def eval_args_pure)
  from assert_is_precondition_as_compiled
    [of True predicate_first "pure False" "pure (c_string ''oops'')" "''t.x''" 42 "()"] h
  have "fst (muli_assert (selected_branch True) predicate_first (pure False)
            (pure (c_string ''oops'')) ''t.x'' 42 ()) =
        Inl (ContractViolation
              (''\<newline>Precondition violation!\<newline>'' @
               message_text (message_value predicate_first (pure False)
                 (pure (c_string ''oops'')) ()) @
               ''\<newline>('' @ ''t.x'' @ '':'' @ decimal (sint (42 :: c_int)) @ '')\<newline>''))"
    by blast
  then show ?thesis
    using h by (simp add: message_value_def eval_args_pure decimal_42)
qed

section \<open>The checked primitives\<close>

text \<open>
  C1. In the text after \<^verbatim>\<open>#if 1\<close>, each of \<^verbatim>\<open>muli_precondition\<close>,
  \<^verbatim>\<open>muli_postcondition\<close>, \<^verbatim>\<open>muli_invariant\<close> and \<^verbatim>\<open>muli_assert\<close> returns normally
  exactly when the predicate expression evaluates to true and raises exactly when it
  evaluates to false. The value of the predicate is that of \<open>P\<close> in the caller's state
  when the predicate is evaluated first, and in the state left by the message
  expression when the message is evaluated first; the message is the value of \<open>M\<close>,
  likewise. What is raised is a \<^verbatim>\<open>ContractViolation\<close> whose \<^verbatim>\<open>what()\<close> contains the fixed
  prefix of its category (the precondition prefix for \<^verbatim>\<open>muli_assert\<close>) and contains the
  message, for every message whose text a C string can carry.
\<close>

theorem checked_primitives_raise_iff_false:
  fixes P :: "('s, bool) expr" and M :: "('s, message) expr"
    and fname :: string and line :: c_int and s :: 's
  defines "p1 \<equiv> fst (P s)"
    and "m1 \<equiv> content (fst (M (snd (P s))))"
    and "p2 \<equiv> fst (P (snd (M s)))"
    and "m2 \<equiv> content (fst (M s))"
    and "pre1 \<equiv> fst (muli_precondition predicate_first P M fname line s)"
    and "post1 \<equiv> fst (muli_postcondition predicate_first P M fname line s)"
    and "inv1 \<equiv> fst (muli_invariant predicate_first P M fname line s)"
    and "assert1 \<equiv> fst (muli_assert checked predicate_first P M fname line s)"
    and "pre2 \<equiv> fst (muli_precondition message_first P M fname line s)"
    and "post2 \<equiv> fst (muli_postcondition message_first P M fname line s)"
    and "inv2 \<equiv> fst (muli_invariant message_first P M fname line s)"
    and "assert2 \<equiv> fst (muli_assert checked message_first P M fname line s)"
  shows
    "((pre1 = Inr ()) = p1 \<and> (post1 = Inr ()) = p1 \<and> (inv1 = Inr ()) = p1 \<and>
      (assert1 = Inr ()) = p1)
     \<and> ((\<exists>e. pre1 = Inl e) = (\<not> p1) \<and> (\<exists>e. post1 = Inl e) = (\<not> p1) \<and>
        (\<exists>e. inv1 = Inl e) = (\<not> p1) \<and> (\<exists>e. assert1 = Inl e) = (\<not> p1))
     \<and> (\<not> p1 \<and> c_text m1 \<longrightarrow>
          violation_with ''Precondition violation!'' m1 pre1 \<and>
          violation_with ''Postcondition violation!'' m1 post1 \<and>
          violation_with ''Invariant violation!'' m1 inv1 \<and>
          violation_with ''Precondition violation!'' m1 assert1)
     \<and> ((pre2 = Inr ()) = p2 \<and> (post2 = Inr ()) = p2 \<and> (inv2 = Inr ()) = p2 \<and>
        (assert2 = Inr ()) = p2)
     \<and> ((\<exists>e. pre2 = Inl e) = (\<not> p2) \<and> (\<exists>e. post2 = Inl e) = (\<not> p2) \<and>
        (\<exists>e. inv2 = Inl e) = (\<not> p2) \<and> (\<exists>e. assert2 = Inl e) = (\<not> p2))
     \<and> (\<not> p2 \<and> c_text m2 \<longrightarrow>
          violation_with ''Precondition violation!'' m2 pre2 \<and>
          violation_with ''Postcondition violation!'' m2 post2 \<and>
          violation_with ''Invariant violation!'' m2 inv2 \<and>
          violation_with ''Precondition violation!'' m2 assert2)"
proof -
  have e1: "pre1 = throw_contract_error_call p1 ''Precondition violation!''
              (fst (M (snd (P s)))) fname line"
    and e2: "post1 = throw_contract_error_call p1 ''Postcondition violation!''
              (fst (M (snd (P s)))) fname line"
    and e3: "inv1 = throw_contract_error_call p1 ''Invariant violation!''
              (fst (M (snd (P s)))) fname line"
    and e4: "pre2 = throw_contract_error_call p2 ''Precondition violation!''
              (fst (M s)) fname line"
    and e5: "post2 = throw_contract_error_call p2 ''Postcondition violation!''
              (fst (M s)) fname line"
    and e6: "inv2 = throw_contract_error_call p2 ''Invariant violation!''
              (fst (M s)) fname line"
    by (simp_all add: pre1_def post1_def inv1_def pre2_def post2_def inv2_def p1_def p2_def
        macro_steps)
  have a: "assert1 = pre1" "assert2 = pre2"
    by (simp_all add: assert1_def assert2_def pre1_def pre2_def)
  note c = c_text_prefixes
  have first: "((pre1 = Inr ()) = p1 \<and> (post1 = Inr ()) = p1 \<and> (inv1 = Inr ()) = p1 \<and>
      (assert1 = Inr ()) = p1)
     \<and> ((\<exists>e. pre1 = Inl e) = (\<not> p1) \<and> (\<exists>e. post1 = Inl e) = (\<not> p1) \<and>
        (\<exists>e. inv1 = Inl e) = (\<not> p1) \<and> (\<exists>e. assert1 = Inl e) = (\<not> p1))
     \<and> (\<not> p1 \<and> c_text m1 \<longrightarrow>
          violation_with ''Precondition violation!'' m1 pre1 \<and>
          violation_with ''Postcondition violation!'' m1 post1 \<and>
          violation_with ''Invariant violation!'' m1 inv1 \<and>
          violation_with ''Precondition violation!'' m1 assert1)"
    unfolding a m1_def
    using contract_check [OF e1 c(1)] contract_check [OF e2 c(2)] contract_check [OF e3 c(3)]
    by blast
  have second: "((pre2 = Inr ()) = p2 \<and> (post2 = Inr ()) = p2 \<and> (inv2 = Inr ()) = p2 \<and>
        (assert2 = Inr ()) = p2)
     \<and> ((\<exists>e. pre2 = Inl e) = (\<not> p2) \<and> (\<exists>e. post2 = Inl e) = (\<not> p2) \<and>
        (\<exists>e. inv2 = Inl e) = (\<not> p2) \<and> (\<exists>e. assert2 = Inl e) = (\<not> p2))
     \<and> (\<not> p2 \<and> c_text m2 \<longrightarrow>
          violation_with ''Precondition violation!'' m2 pre2 \<and>
          violation_with ''Postcondition violation!'' m2 post2 \<and>
          violation_with ''Invariant violation!'' m2 inv2 \<and>
          violation_with ''Precondition violation!'' m2 assert2)"
    unfolding a m2_def
    using contract_check [OF e4 c(1)] contract_check [OF e5 c(2)] contract_check [OF e6 c(3)]
    by blast
  from first second show ?thesis by blast
qed

theorem checked_primitives_raise_iff_false_witness:
  "\<not> fst (pure False ()) \<and> c_text ''x>0''
   \<and> violation_with ''Precondition violation!'' ''x>0''
        (fst (muli_precondition predicate_first (pure False) (pure (c_string ''x>0'')) ''t.x'' 42 ()))
   \<and> violation_with ''Postcondition violation!'' ''x>0''
        (fst (muli_postcondition predicate_first (pure False) (pure (c_string ''x>0'')) ''t.x'' 42 ()))
   \<and> violation_with ''Invariant violation!'' ''x>0''
        (fst (muli_invariant message_first (pure False) (pure (c_string ''x>0'')) ''t.x'' 42 ()))
   \<and> violation_with ''Precondition violation!'' ''x>0''
        (fst (muli_assert checked message_first (pure False) (pure (c_string ''x>0'')) ''t.x'' 42 ()))"
proof -
  let ?P = "pure False :: (unit, bool) expr"
  let ?M = "pure (c_string ''x>0'') :: (unit, message) expr"
  have p: "\<not> fst (?P ())" "\<not> fst (?P (snd (?M ())))"
    by (simp_all add: pure_def)
  have m: "content (fst (?M (snd (?P ())))) = ''x>0''" "content (fst (?M ())) = ''x>0''"
    by (simp_all add: pure_def)
  have c: "c_text ''x>0''"
    by (simp add: c_text_def)
  from checked_primitives_raise_iff_false [of ?P ?M "''t.x''" 42 "()"] p c
  show ?thesis unfolding m by blast
qed

text \<open>
  C3, as the source has it. The claim that the message expression is not evaluated when
  the predicate is true fails: the macro expands to a call of an inline function, and
  the arguments of a call are evaluated before its body. With a true predicate and a
  message expression that counts its evaluations, the check returns normally and the
  counter has moved.
\<close>

theorem message_evaluated_on_success_counterexample:
  "fst (pure True (0 :: nat))
   \<and> fst (muli_precondition predicate_first (pure True) side_effect ''t.x'' 42 0) = Inr ()
   \<and> snd (muli_precondition predicate_first (pure True) side_effect ''t.x'' 42 0)
       \<noteq> snd (pure True (0 :: nat))
   \<and> fst (muli_precondition message_first (pure True) side_effect ''t.x'' 42 0) = Inr ()
   \<and> snd (muli_precondition message_first (pure True) side_effect ''t.x'' 42 0)
       \<noteq> snd (pure True (0 :: nat))"
  by (simp add: muli_precondition_def pure_def side_effect_def throw_contract_error_def)

text \<open>
  C3, amended. Each of the four primitives evaluates the predicate and the message
  expression once each, one after the other in the order the compiler chose, whatever
  the predicate's value; the state after the check is the state after both evaluations.
  Only what the helper does with the two values depends on the predicate.
\<close>

theorem arguments_evaluated_before_the_call:
  "muli_precondition predicate_first P M file line s =
     (throw_contract_error_call (fst (P s)) ''Precondition violation!''
        (fst (M (snd (P s)))) file line, snd (M (snd (P s))))
   \<and> muli_precondition message_first P M file line s =
     (throw_contract_error_call (fst (P (snd (M s)))) ''Precondition violation!''
        (fst (M s)) file line, snd (P (snd (M s))))
   \<and> muli_postcondition predicate_first P M file line s =
     (throw_contract_error_call (fst (P s)) ''Postcondition violation!''
        (fst (M (snd (P s)))) file line, snd (M (snd (P s))))
   \<and> muli_postcondition message_first P M file line s =
     (throw_contract_error_call (fst (P (snd (M s)))) ''Postcondition violation!''
        (fst (M s)) file line, snd (P (snd (M s))))
   \<and> muli_invariant predicate_first P M file line s =
     (throw_contract_error_call (fst (P s)) ''Invariant violation!''
        (fst (M (snd (P s)))) file line, snd (M (snd (P s))))
   \<and> muli_invariant message_first P M file line s =
     (throw_contract_error_call (fst (P (snd (M s)))) ''Invariant violation!''
        (fst (M s)) file line, snd (P (snd (M s))))
   \<and> muli_assert checked predicate_first P M file line s =
     (throw_contract_error_call (fst (P s)) ''Precondition violation!''
        (fst (M (snd (P s)))) file line, snd (M (snd (P s))))
   \<and> muli_assert checked message_first P M file line s =
     (throw_contract_error_call (fst (P (snd (M s)))) ''Precondition violation!''
        (fst (M s)) file line, snd (P (snd (M s))))"
  by (simp add: muli_precondition_def muli_postcondition_def muli_invariant_def
      split: prod.splits)

section \<open>The two overloads\<close>

text \<open>
  C8. For a message text that a \<^verbatim>\<open>char const *\<close> can carry, the overload taking
  \<^verbatim>\<open>std::string\<close> and the overload taking \<^verbatim>\<open>char const *\<close> have the same outcome, for
  \<^verbatim>\<open>throw_contract_error\<close> and for \<^verbatim>\<open>throw_runtime_error\<close>, and so has every macro that
  calls them.
\<close>

theorem overloads_agree:
  assumes "c_text m"
  shows
    "throw_contract_error_string p pfx m file line = throw_contract_error p pfx m file line
     \<and> throw_runtime_error_string m file line = throw_runtime_error m file line
     \<and> throw_contract_error_call p pfx (std_string m) file line =
         throw_contract_error_call p pfx (c_string m) file line
     \<and> throw_runtime_error_call (std_string m) file line =
         throw_runtime_error_call (c_string m) file line
     \<and> muli_precondition ord P (pure (std_string m)) file line s =
         muli_precondition ord P (pure (c_string m)) file line s
     \<and> muli_postcondition ord P (pure (std_string m)) file line s =
         muli_postcondition ord P (pure (c_string m)) file line s
     \<and> muli_invariant ord P (pure (std_string m)) file line s =
         muli_invariant ord P (pure (c_string m)) file line s
     \<and> muli_assert checked ord P (pure (std_string m)) file line s =
         muli_assert checked ord P (pure (c_string m)) file line s
     \<and> muli_fail checked (pure (std_string m)) file line s =
         muli_fail checked (pure (c_string m)) file line s"
proof -
  have h: "throw_contract_error_string p' pfx' m file line =
           throw_contract_error p' pfx' m file line" for p' pfx'
    using assms by (simp add: throw_contract_error_string_def throw_contract_error_def
        c_str_c_text)
  have r: "throw_runtime_error_string m file line = throw_runtime_error m file line"
    by (simp add: throw_runtime_error_eq throw_runtime_error_string_eq)
  have e: "eval_args ord P (pure (std_string m)) s =
             (case eval_args ord P (pure (c_string m)) s of ((b, x), s') \<Rightarrow> ((b, std_string m), s'))"
          "snd (fst (eval_args ord P (pure (c_string m)) s)) = c_string m"
    by (cases ord; simp add: pure_def split: prod.splits)+
  have k: "muli_precondition ord P (pure (std_string m)) file line s =
           muli_precondition ord P (pure (c_string m)) file line s"
    "muli_postcondition ord P (pure (std_string m)) file line s =
           muli_postcondition ord P (pure (c_string m)) file line s"
    "muli_invariant ord P (pure (std_string m)) file line s =
           muli_invariant ord P (pure (c_string m)) file line s"
    using e(2) by (auto simp: muli_precondition_def muli_postcondition_def muli_invariant_def
        e(1) h split: prod.splits)
  have f: "muli_fail checked (pure (std_string m)) file line s =
           muli_fail checked (pure (c_string m)) file line s"
    by (simp add: pure_def r)
  from h r k f show ?thesis by simp
qed

theorem overloads_agree_witness:
  "c_text ''x>0''
   \<and> throw_contract_error_string False ''Precondition violation!'' ''x>0'' ''t.x'' 42 =
       throw_contract_error False ''Precondition violation!'' ''x>0'' ''t.x'' 42
   \<and> throw_runtime_error_string ''x>0'' ''t.x'' 42 = throw_runtime_error ''x>0'' ''t.x'' 42"
proof -
  have c: "c_text ''x>0''" by (simp add: c_text_def)
  from overloads_agree
    [OF c, of False "''Precondition violation!''" "''t.x''" 42 predicate_first
       "pure False" "()"]
  have "throw_contract_error_string False ''Precondition violation!'' ''x>0'' ''t.x'' 42 =
          throw_contract_error False ''Precondition violation!'' ''x>0'' ''t.x'' 42"
    and "throw_runtime_error_string ''x>0'' ''t.x'' 42 = throw_runtime_error ''x>0'' ''t.x'' 42"
    by blast+
  with c show ?thesis by blast
qed

section \<open>Unconditional failure\<close>

text \<open>
  C5, as the source has it. The claim that the string raised by \<^verbatim>\<open>muli_fail\<close> contains none
  of the three category prefixes fails for a message that is itself such a prefix: the
  message is embedded as it is.
\<close>

theorem fail_names_a_category_counterexample:
  "muli_fail checked (pure (c_string ''Precondition violation!'')) ''t.x'' 42 () =
     (Inl (runtime_error ''\<newline>Precondition violation!\<newline>(t.x:42)\<newline>''), ())
   \<and> \<not> category_free (what (runtime_error ''\<newline>Precondition violation!\<newline>(t.x:42)\<newline>''))"
proof -
  have w: "what (runtime_error ''\<newline>Precondition violation!\<newline>(t.x:42)\<newline>'') =
           ''\<newline>'' @ ''Precondition violation!'' @ ''\<newline>(t.x:42)\<newline>''"
    by (simp add: what_def c_str_def)
  have "sublist ''Precondition violation!''
          (''\<newline>'' @ ''Precondition violation!'' @ ''\<newline>(t.x:42)\<newline>'')"
    by (rule sublist_second)
  then have "\<not> category_free (what (runtime_error ''\<newline>Precondition violation!\<newline>(t.x:42)\<newline>''))"
    unfolding w by (simp add: category_free_def)
  moreover have "muli_fail checked (pure (c_string ''Precondition violation!'')) ''t.x'' 42 () =
     (Inl (runtime_error ''\<newline>Precondition violation!\<newline>(t.x:42)\<newline>''), ())"
    by (simp add: pure_def throw_runtime_error_eq decimal_42)
  ultimately show ?thesis by blast
qed

text \<open>
  C5, amended. In the text after \<^verbatim>\<open>#if 1\<close>, \<^verbatim>\<open>muli_fail\<close> evaluates its message and
  always raises a \<^verbatim>\<open>std::runtime_error\<close>, never returning normally; the string handed to
  it is newline, message, newline, and the location in parentheses, newline. For a
  message and a file name that a C string can carry, \<^verbatim>\<open>what()\<close> is that string: it
  contains the message and the location, and no category prefix is added, so a prefix
  occurs in it exactly when it occurs in the message or in the file name.
\<close>

theorem fail_always_raises:
  fixes M :: "('s, message) expr" and fname :: string and line :: c_int and s :: 's
  defines "m \<equiv> content (fst (M s))"
    and "location \<equiv> ''('' @ fname @ '':'' @ decimal (sint line) @ '')''"
    and "rendered \<equiv> ''\<newline>'' @ content (fst (M s)) @ ''\<newline>('' @ fname @ '':'' @
           decimal (sint line) @ '')\<newline>''"
  shows
    "muli_fail checked M fname line s = (Inl (runtime_error rendered), snd (M s))
     \<and> (c_text m \<and> c_text fname \<longrightarrow>
          what (runtime_error rendered) = rendered
          \<and> sublist m (what (runtime_error rendered))
          \<and> sublist location (what (runtime_error rendered))
          \<and> category_free (what (runtime_error rendered)) =
              (category_free m \<and> category_free fname))"
proof -
  have "sublist location (''\<newline>'' @ m @ ''\<newline>'' @ location @ ''\<newline>'')"
    by (rule sublist_fourth)
  then have l: "sublist location rendered"
    by (simp add: location_def rendered_def m_def)
  have c: "sublist m rendered" unfolding m_def rendered_def by (rule sublist_second)
  have f: "category_free rendered = (category_free m \<and> category_free fname)"
    unfolding m_def rendered_def by (rule category_free_located)
  have r: "muli_fail checked M fname line s = (Inl (runtime_error rendered), snd (M s))"
    unfolding rendered_def by (rule muli_fail_checked_eq)
  have w: "what (runtime_error rendered) = rendered" if "c_text m" "c_text fname"
  proof -
    from that have "c_text rendered"
      unfolding rendered_def m_def by (rule c_text_located)
    then show ?thesis by (simp add: what_c_text)
  qed
  from r w l c f show ?thesis by metis
qed

theorem fail_always_raises_witness:
  "c_text ''bad input'' \<and> c_text ''t.x''
   \<and> muli_fail checked (pure (c_string ''bad input'')) ''t.x'' 42 () =
       (Inl (runtime_error ''\<newline>bad input\<newline>(t.x:42)\<newline>''), ())
   \<and> what (runtime_error ''\<newline>bad input\<newline>(t.x:42)\<newline>'') = ''\<newline>bad input\<newline>(t.x:42)\<newline>''
   \<and> sublist ''bad input'' (what (runtime_error ''\<newline>bad input\<newline>(t.x:42)\<newline>''))
   \<and> sublist ''(t.x:42)'' (what (runtime_error ''\<newline>bad input\<newline>(t.x:42)\<newline>''))"
proof -
  let ?M = "pure (c_string ''bad input'') :: (unit, message) expr"
  have m: "content (fst (?M ())) = ''bad input''" "snd (?M ()) = ()"
    by (simp_all add: pure_def)
  have c: "c_text ''bad input''" "c_text ''t.x''"
    by (simp_all add: c_text_def)
  have r: "''\<newline>'' @ ''bad input'' @ ''\<newline>('' @ ''t.x'' @ '':'' @ decimal (sint (42 :: c_int)) @ '')\<newline>'' =
           ''\<newline>bad input\<newline>(t.x:42)\<newline>''"
          "''('' @ ''t.x'' @ '':'' @ decimal (sint (42 :: c_int)) @ '')'' = ''(t.x:42)''"
    by (simp_all add: decimal_42)
  from fail_always_raises [of ?M "''t.x''" 42 "()"] c
  show ?thesis unfolding m r by blast
qed

section \<open>Newlines around the rendered string\<close>

text \<open>
  C6. For texts that a C string can carry, \<^verbatim>\<open>what()\<close> of a \<^verbatim>\<open>ContractViolation\<close> built by
  either constructor begins and ends with a newline. In either build, with or without
  \<^verbatim>\<open>NDEBUG\<close>, each of the four contract checks returns when its predicate holds and
  otherwise raises a failure whose \<^verbatim>\<open>what()\<close> begins and ends with a newline, and
  \<^verbatim>\<open>muli_fail\<close> always raises such a failure; this for either order of evaluation and
  every message expression whose values are such texts.
\<close>

theorem rendered_newline_framed:
  assumes "c_text pfx" and "c_text message" and "c_text file"
    and "\<forall>t. c_text (content (fst (M t)))"
  shows
    "newline_framed (what (new_ContractViolation pfx message))
     \<and> newline_framed (what (new_ContractViolation_at pfx message file line))
     \<and> raises_framed_unless (fst (P s))
          (fst (muli_precondition predicate_first P M file line s))
     \<and> raises_framed_unless (fst (P (snd (M s))))
          (fst (muli_precondition message_first P M file line s))
     \<and> raises_framed_unless (fst (P s))
          (fst (muli_postcondition predicate_first P M file line s))
     \<and> raises_framed_unless (fst (P (snd (M s))))
          (fst (muli_postcondition message_first P M file line s))
     \<and> raises_framed_unless (fst (P s))
          (fst (muli_invariant predicate_first P M file line s))
     \<and> raises_framed_unless (fst (P (snd (M s))))
          (fst (muli_invariant message_first P M file line s))
     \<and> raises_framed_unless (fst (P s))
          (fst (muli_assert (selected_branch ndebug) predicate_first P M file line s))
     \<and> raises_framed_unless (fst (P (snd (M s))))
          (fst (muli_assert (selected_branch ndebug) message_first P M file line s))
     \<and> raises_framed_unless False
          (fst (muli_fail (selected_branch ndebug) M file line s))"
proof -
  have m: "c_text (content (fst (M t)))" for t
    using assms(4) by blast
  note c = c_text_prefixes
  have pre: "raises_framed_unless (fst (P s))
          (fst (muli_precondition predicate_first P M file line s))"
    "raises_framed_unless (fst (P (snd (M s))))
          (fst (muli_precondition message_first P M file line s))"
    by (simp_all add: macro_steps raises_framed_call c m assms(3))
  have post: "raises_framed_unless (fst (P s))
          (fst (muli_postcondition predicate_first P M file line s))"
    "raises_framed_unless (fst (P (snd (M s))))
          (fst (muli_postcondition message_first P M file line s))"
    by (simp_all add: macro_steps raises_framed_call c m assms(3))
  have inv: "raises_framed_unless (fst (P s))
          (fst (muli_invariant predicate_first P M file line s))"
    "raises_framed_unless (fst (P (snd (M s))))
          (fst (muli_invariant message_first P M file line s))"
    by (simp_all add: macro_steps raises_framed_call c m assms(3))
  have asrt: "raises_framed_unless (fst (P s))
          (fst (muli_assert (selected_branch ndebug) predicate_first P M file line s))"
    "raises_framed_unless (fst (P (snd (M s))))
          (fst (muli_assert (selected_branch ndebug) message_first P M file line s))"
    using pre by (simp_all add: selected_branch_def)
  have "fst (muli_fail (selected_branch ndebug) M file line s) =
          throw_runtime_error_call (fst (M s)) file line"
    by (simp add: selected_branch_def split: prod.splits)
  then have fail: "raises_framed_unless False
          (fst (muli_fail (selected_branch ndebug) M file line s))"
    by (simp only: raises_framed_runtime [OF m assms(3)])
  from assms(1-3) pre post inv asrt fail show ?thesis
    by (simp add: newline_framed_createMessage newline_framed_createMessage_at)
qed

theorem rendered_newline_framed_witness:
  "c_text ''Invariant violation!'' \<and> c_text ''tree balanced'' \<and> c_text ''t.x''
   \<and> (\<forall>t :: unit. c_text (content (fst (pure (c_string ''tree balanced'') t))))
   \<and> newline_framed (what (new_ContractViolation_at ''Invariant violation!''
        ''tree balanced'' ''t.x'' 42))
   \<and> raises_framed_unless False
        (fst (muli_invariant predicate_first (pure False) (pure (c_string ''tree balanced''))
           ''t.x'' 42 ()))
   \<and> raises_framed_unless False
        (fst (muli_fail (selected_branch True) (pure (c_string ''tree balanced'')) ''t.x'' 42 ()))"
proof -
  let ?M = "pure (c_string ''tree balanced'') :: (unit, message) expr"
  let ?P = "pure False :: (unit, bool) expr"
  have c: "c_text ''Invariant violation!''" "c_text ''tree balanced''" "c_text ''t.x''"
    by (simp_all add: c_text_def)
  have a: "\<forall>t :: unit. c_text (content (fst (?M t)))"
    by (simp add: pure_def c_text_def)
  have p: "fst (?P ()) = False"
    by (simp add: pure_def)
  from rendered_newline_framed [OF c a, of 42 ?P "()" True]
  have "newline_framed (what (new_ContractViolation_at ''Invariant violation!''
          ''tree balanced'' ''t.x'' 42))"
    and "raises_framed_unless (fst (?P ()))
          (fst (muli_invariant predicate_first ?P ?M ''t.x'' 42 ()))"
    and "raises_framed_unless False (fst (muli_fail (selected_branch True) ?M ''t.x'' 42 ()))"
    by blast+
  with c a show ?thesis unfolding p by blast
qed

section \<open>The contract macros after \<^verbatim>\<open>#else\<close>\<close>

text \<open>
  C7. The claim is that in the release text the contract macros raise a string made of
  prefix and message without a location. The source cannot do so: the call the three
  macros expand to has three arguments and no declaration of \<^verbatim>\<open>throw_contract_error\<close> in
  that branch is viable for it, whatever the type of the message; the helper's own
  \<^verbatim>\<open>ContractViolation(message)\<close> matches no constructor either. What is compiled, also
  when \<^verbatim>\<open>NDEBUG\<close> is defined, is the other text, and there a failed precondition carries
  its location.
\<close>

theorem release_contract_macros_ill_formed:
  "resolve throw_contract_error_release (contract_macro_release_args message_type) = None
   \<and> resolve ContractViolation_ctors [t_cstr] = None
   \<and> selected_branch True = checked
   \<and> fst (muli_precondition ord (pure False) (pure (c_string ''x>0'')) ''t.x'' 42 s) =
       Inl (ContractViolation ''\<newline>Precondition violation!\<newline>x>0\<newline>(t.x:42)\<newline>'')"
  by (simp add: resolve_def viable_def throw_contract_error_release_def
      contract_macro_release_args_def ContractViolation_ctors_def converts_def
      selected_branch_def muli_precondition_def eval_args_pure throw_contract_error_call_eq
      decimal_42)

end
